theory Spec2Isabelle
  imports Complex_Main "HOL-Library.Sublist"
begin

section \<open>Strings\<close>

text \<open>
  A JavaScript string is modelled as a list of 8-bit characters. The model is exact for
  ASCII text: \<open>toLowerCase\<close> maps \<open>A\<close>..\<open>Z\<close> to \<open>a\<close>..\<open>z\<close> and leaves every other
  character alone, and the white space removed by \<open>trim\<close> is tab, line feed, vertical tab,
  form feed, carriage return and space.
\<close>

definition toLowerChar :: "char \<Rightarrow> char" where
  "toLowerChar c =
     (case map_of (zip ''ABCDEFGHIJKLMNOPQRSTUVWXYZ'' ''abcdefghijklmnopqrstuvwxyz'') c of
        Some l \<Rightarrow> l
      | None \<Rightarrow> c)"

definition toLowerCase :: "string \<Rightarrow> string" where
  "toLowerCase s = map toLowerChar s"

definition isWhiteSpace :: "char \<Rightarrow> bool" where
  "isWhiteSpace c = (c \<in> set [CHR 0x09, CHR 0x0A, CHR 0x0B, CHR 0x0C, CHR 0x0D, CHR '' ''])"

definition trim :: "string \<Rightarrow> string" where
  "trim s = rev (dropWhile isWhiteSpace (rev (dropWhile isWhiteSpace s)))"

fun startsWith :: "string \<Rightarrow> string \<Rightarrow> bool" where
  "startsWith t [] = True"
| "startsWith [] (p # ps) = False"
| "startsWith (c # cs) (p # ps) = (c = p \<and> startsWith cs ps)"

fun tails :: "'a list \<Rightarrow> 'a list list" where
  "tails [] = [[]]"
| "tails (x # xs) = (x # xs) # tails xs"

text \<open>\<open>str_includes t p\<close> is \<open>t.includes(p)\<close>: the phrase \<open>p\<close> occurs somewhere in \<open>t\<close>.\<close>

definition str_includes :: "string \<Rightarrow> string \<Rightarrow> bool" where
  "str_includes t p = list_ex (\<lambda>s. startsWith s p) (tails t)"

subsection \<open>The regular expressions of the source\<close>

text \<open>
  Every regular expression of the source is an alternation of literal phrases, tested with
  \<open>.test(text)\<close>, or two such alternations joined by \<open>.*\<close>. An optional part (\<open>s?\<close>,
  \<open>(ing)?\<close>) is written out as the alternatives it stands for. \<open>test_alt\<close> is the test of
  \<open>/(p1|p2|...)/\<close>; \<open>test_then\<close> is the test of \<open>/(a1|a2|...).*(b1|b2|...)/\<close>, where the
  dot matches every character but a line terminator.
\<close>

definition test_alt :: "string list \<Rightarrow> string \<Rightarrow> bool" where
  "test_alt phrases t = list_ex (\<lambda>p. str_includes t p) phrases"

definition isLineTerminator :: "char \<Rightarrow> bool" where
  "isLineTerminator c = (c \<in> set [CHR 0x0A, CHR 0x0D])"

definition test_then :: "string list \<Rightarrow> string list \<Rightarrow> string \<Rightarrow> bool" where
  "test_then firsts seconds t =
     list_ex (\<lambda>s. list_ex (\<lambda>a. startsWith s a \<and>
                test_alt seconds (takeWhile (\<lambda>c. \<not> isLineTerminator c) (drop (length a) s)))
              firsts)
       (tails t)"

section \<open>Resistance classifier\<close>

datatype Resistance = Ambiguity | Overwhelm | Anxiety | Inertia | Perfectionism | Default

definition ambiguityPhrases :: "string list" where
  "ambiguityPhrases =
     [''don't know where to start'', ''not sure how'', ''don't know what to do'',
      ''where do i begin'', ''no idea'', ''confused about'', ''what should i'']"

definition overwhelmPhrases :: "string list" where
  "overwhelmPhrases =
     [''too much'', ''so many things'', ''everything'', ''a lot to do'', ''piling up'',
      ''can't keep up'', ''buried'', ''behind on'']"

definition anxietyPhrases :: "string list" where
  "anxietyPhrases =
     [''stressing'', ''stressed'', ''worried'', ''scared'', ''nervous'', ''afraid'',
      ''matters a lot'', ''important'', ''can't mess up'', ''pressure'']"

definition inertiaPhrases :: "string list" where
  "inertiaPhrases =
     [''keep putting off'', ''procrastinat'', ''avoiding'', ''haven't started'',
      ''been meaning to'', ''weeks'', ''months'', ''forever'']"

definition perfectionismPhrases :: "string list" where
  "perfectionismPhrases =
     [''has to be perfect'', ''not good enough'', ''redoing'', ''can't finish'',
      ''keep starting over'', ''nothing feels right'']"

definition detectResistance :: "string \<Rightarrow> string \<Rightarrow> Resistance" where
  "detectResistance goal blocker =
     (let t = toLowerCase (goal @ '' '' @ blocker) in
      if test_alt ambiguityPhrases t then Ambiguity
      else if test_alt overwhelmPhrases t then Overwhelm
      else if test_alt anxietyPhrases t then Anxiety
      else if test_alt inertiaPhrases t then Inertia
      else if test_alt perfectionismPhrases t then Perfectionism
      else Default)"

text \<open>
  The classifier as the specification words it: the categories in their priority order, each
  with its phrase set; the first category one of whose phrases occurs in the text wins, and
  \<open>Default\<close> is the answer when none does. "Occurs in" is \<^const>\<open>sublist\<close>, which is
  defined by the existence of a text before and a text after the phrase.
\<close>

definition classify_priority :: "(Resistance \<times> string list) list" where
  "classify_priority =
     [(Ambiguity, ambiguityPhrases), (Overwhelm, overwhelmPhrases), (Anxiety, anxietyPhrases),
      (Inertia, inertiaPhrases), (Perfectionism, perfectionismPhrases)]"

definition classify_spec :: "string \<Rightarrow> Resistance" where
  "classify_spec t =
     (case find (\<lambda>(c, phrases). list_ex (\<lambda>p. sublist p t) phrases) classify_priority of
        Some (c, phrases) \<Rightarrow> c
      | None \<Rightarrow> Default)"

section \<open>Task suggestion engine\<close>

definition orElse :: "string \<Rightarrow> string \<Rightarrow> string" where
  "orElse s fallback = (if s = [] then fallback else s)"

definition buildSuggestedTasks :: "string \<Rightarrow> string \<Rightarrow> string list" where
  "buildSuggestedTasks goal problem =
     (let cleanGoal = orElse (trim goal) ''your main phd goal'';
          cleanProblem = orElse (trim problem) ''starting feels hard'';
          resistance = detectResistance cleanGoal cleanProblem;
          t = toLowerCase (cleanGoal @ '' '' @ cleanProblem);
          hasRoom = test_alt [''room'', ''floor'', ''vacuum'', ''clean'', ''tidy'', ''organize'',
                              ''organise'', ''mess''] t;
          hasSourdough = test_alt [''sourdough'', ''starter'', ''bread'', ''bake''] t;
          hasPaper = test_alt [''paper'', ''manuscript'', ''thesis'', ''research'', ''journal'',
                               ''discussion'', ''results'', ''experiment'', ''figure'',
                               ''figures''] t;
          hasEditingFigures = test_alt [''edit figure'', ''edit figures'', ''editing figure'',
                                        ''editing figures'', ''figure edit'', ''fix figure'',
                                        ''fix figures'', ''figure formatting'', ''axis label''] t;
          hasDiscussion = (test_then [''write'', ''draft''] [''discussion''] t
                           \<or> test_alt [''discussion section''] t);
          hasResults = (test_then [''write'', ''draft''] [''result'', ''results''] t
                        \<or> test_alt [''results section'', ''experiment''] t);
          hasProject = test_alt [''project'', ''write'', ''code'', ''study'', ''design'', ''plan'',
                                 ''finish''] t;
          task1 = (if hasRoom
                   then ''Pick up everything on your floor and put it on your bed for 5 minutes.''
                   else ''Clear your desk and throw away anything that does not belong there for 4 minutes.'');
          task2 = (if hasSourdough
                   then ''Feed your sourdough starter: 50g flour, 50g water, stir, and put the lid on.''
                   else if hasEditingFigures \<or> hasPaper
                   then ''Open your figure file, zoom in on figure 1, and set your toolbar for editing in 3 minutes.''
                   else ''Open the file you need and set up only the tools you need in 3 minutes.'');
          task3 = (if hasEditingFigures
                   then ''Fix the axis labels and adjust font sizes on figure 1 for 10 minutes only, then stop.''
                   else if hasDiscussion
                   then ''Open your discussion section, read your results section, and write one sentence about what your main finding means in 10 minutes only.''
                   else if resistance = Ambiguity
                   then ''Open your project document and write one sentence: what done looks like for this project, 8 minutes only.''
                   else ''Outline the next 3 steps for your project in bullet points for 8 minutes only.'');
          task4 = (if hasRoom
                   then ''Vacuum the floor for 7 minutes and stop when the timer ends.''
                   else ''Stand up, get water, and come back to your desk in 3 minutes.'');
          task5 = (if hasResults
                   then ''Pick one experiment, write one result sentence, and add the figure reference for 10 minutes only.''
                   else if hasEditingFigures
                   then ''Export figure 1 as a 300 dpi PNG and do not touch figure 2 for 8 minutes only.''
                   else if resistance = Anxiety
                   then ''Set a 10-minute timer, open your project, and finish one paragraph that starts with your best guess.''
                   else if resistance = Inertia
                   then ''Set a 10-minute timer, open your project, and add exactly one sentence to move it forward.''
                   else if resistance = Perfectionism
                   then ''Set a 10-minute timer, write one rough paragraph, and keep it even if it is imperfect.''
                   else ''Set a 10-minute timer and finish one paragraph for your project, nothing more.'');
          task6 = (if hasPaper \<or> hasProject
                   then ''Save your document, close the file, and write one line for your next action in 2 minutes.''
                   else ''Put a check mark next to what you finished and write one next action in 2 minutes.'')
      in take 6 [task1, task2, task3, task4, task5, task6])"

section \<open>JavaScript values\<close>

text \<open>
  What \<open>JSON.parse\<close> returns and what a property access yields. A finite \<open>number\<close> is the
  rational it denotes; \<open>NaN\<close> and the infinities are outside the model. An object is the
  list of its own properties.
\<close>

datatype jsval =
    JUndefined
  | JNull
  | JBool bool
  | JNum rat
  | JStr string
  | JArr "jsval list"
  | JObj "(string \<times> jsval) list"

datatype error = SyntaxError | TypeError | RangeError

text \<open>
  \<open>ownProp v k\<close> is \<open>v.k\<close> for a value that is neither \<open>null\<close> nor \<open>undefined\<close>, for the
  property names the source reads (\<open>id\<close>, \<open>text\<close>, \<open>completedDates\<close> and the fields of
  \<open>SavedState\<close>): only an object can have them. \<open>getProp\<close> is the access in general, which
  throws a \<open>TypeError\<close> on \<open>null\<close> and \<open>undefined\<close>.
\<close>

definition ownProp :: "jsval \<Rightarrow> string \<Rightarrow> jsval" where
  "ownProp v k =
     (case v of
        JObj kvs \<Rightarrow> (case map_of kvs k of Some x \<Rightarrow> x | None \<Rightarrow> JUndefined)
      | _ \<Rightarrow> JUndefined)"

definition getProp :: "jsval \<Rightarrow> string \<Rightarrow> error + jsval" where
  "getProp v k = (if v = JNull \<or> v = JUndefined then Inl TypeError else Inr (ownProp v k))"

section \<open>Task normalizer\<close>

record ActionItem =
  item_id :: string
  item_text :: string
  completedDates :: "string list"

definition isLowerAlnum :: "char \<Rightarrow> bool" where
  "isLowerAlnum c = (c \<in> set ''abcdefghijklmnopqrstuvwxyz0123456789'')"

text \<open>\<open>collapseRuns s\<close> is \<open>s.replace(/[^a-z0-9]+/g, " ")\<close>.\<close>

function collapseRuns :: "string \<Rightarrow> string" where
  "collapseRuns [] = []"
| "collapseRuns (c # cs) =
     (if isLowerAlnum c then c # collapseRuns cs
      else CHR '' '' # collapseRuns (dropWhile (\<lambda>x. \<not> isLowerAlnum x) cs))"
  by pat_completeness auto
termination
  by (relation "measure length") (auto simp: length_dropWhile_le less_Suc_eq_le)

definition normalizeTaskText :: "string \<Rightarrow> string" where
  "normalizeTaskText v = trim (collapseRuns (toLowerCase v))"

definition stringsOf :: "jsval list \<Rightarrow> string list" where
  "stringsOf vs = List.map_filter (\<lambda>v. case v of JStr s \<Rightarrow> Some s | _ \<Rightarrow> None) vs"

text \<open>
  The \<open>map\<close> step of \<open>normalizeActions\<close>: \<open>None\<close> is the source's \<open>null\<close>. A falsy value and
  a value that is not an object give \<open>null\<close>; so does an array, whose \<open>id\<close> is undefined.
\<close>

definition toItem :: "jsval \<Rightarrow> ActionItem option" where
  "toItem item =
     (case item of
        JObj kvs \<Rightarrow>
          (case (ownProp item ''id'', ownProp item ''text'') of
             (JStr i, JStr t) \<Rightarrow>
               Some \<lparr>item_id = i, item_text = t,
                     completedDates =
                       (case ownProp item ''completedDates'' of
                          JArr ds \<Rightarrow> stringsOf ds
                        | _ \<Rightarrow> [])\<rparr>
           | _ \<Rightarrow> None)
      | _ \<Rightarrow> None)"

text \<open>The \<open>filter\<close> step, with the set \<open>seen\<close> that the callback updates.\<close>

fun keepUnseen :: "string set \<Rightarrow> ActionItem option list \<Rightarrow> ActionItem list" where
  "keepUnseen seen [] = []"
| "keepUnseen seen (None # xs) = keepUnseen seen xs"
| "keepUnseen seen (Some item # xs) =
     (let key = normalizeTaskText (item_text item) in
      if key = [] \<or> key \<in> seen then keepUnseen seen xs
      else item # keepUnseen (insert key seen) xs)"

definition normalizeActions :: "jsval \<Rightarrow> ActionItem list" where
  "normalizeActions v =
     (case v of
        JArr items \<Rightarrow> keepUnseen {} (map toItem items)
      | _ \<Rightarrow> [])"

text \<open>An action list as the value that \<open>JSON.stringify\<close> and \<open>JSON.parse\<close> hand back.\<close>

definition itemToJs :: "ActionItem \<Rightarrow> jsval" where
  "itemToJs a =
     JObj [(''id'', JStr (item_id a)), (''text'', JStr (item_text a)),
           (''completedDates'', JArr (map JStr (completedDates a)))]"

definition actionsToJs :: "ActionItem list \<Rightarrow> jsval" where
  "actionsToJs xs = JArr (map itemToJs xs)"

text \<open>
  The normalizer as the specification words it, on the well-typed entries: entry \<open>i\<close> stays
  when its key is not empty and no earlier entry has the same key.
\<close>

definition textKey :: "ActionItem \<Rightarrow> string" where
  "textKey a = normalizeTaskText (item_text a)"

definition wellTyped :: "jsval list \<Rightarrow> ActionItem list" where
  "wellTyped vs = List.map_filter toItem vs"

definition firstSeen :: "ActionItem list \<Rightarrow> ActionItem list" where
  "firstSeen xs =
     map (\<lambda>i. xs ! i)
       (filter (\<lambda>i. textKey (xs ! i) \<noteq> [] \<and> textKey (xs ! i) \<notin> set (map textKey (take i xs)))
          [0..<length xs])"

section \<open>State codec\<close>

text \<open>
  \<open>SavedState\<close>. The type parameters are the types of the text fields and of the flag: they
  are \<open>string\<close> and \<open>bool\<close> in the running component, and \<open>jsval\<close> in what
  \<open>loadSavedState\<close> returns, which casts the parsed blob to \<open>Partial<SavedState>\<close> without
  looking at those fields.
\<close>

record ('s, 'b) SavedState =
  plannerGoal :: 's
  plannerProblem :: 's
  actions :: "ActionItem list"
  proofLog :: 's
  strictMode :: 'b
  deadlineTime :: 's
  stakeBalance :: rat
  stakePerMiss :: rat
  totalPenalties :: rat
  lastPenaltyDate :: 's

definition APP_STORAGE_KEY :: string where
  "APP_STORAGE_KEY = ''phd-buddy-v1''"

definition defaultState :: "(string, bool) SavedState" where
  "defaultState =
     \<lparr>plannerGoal = [], plannerProblem = [], actions = [], proofLog = [],
      strictMode = True, deadlineTime = ''21:00'', stakeBalance = 0, stakePerMiss = 15,
      totalPenalties = 0, lastPenaltyDate = []\<rparr>"

definition asLoaded :: "(string, bool) SavedState \<Rightarrow> (jsval, jsval) SavedState" where
  "asLoaded s =
     \<lparr>plannerGoal = JStr (plannerGoal s), plannerProblem = JStr (plannerProblem s),
      actions = actions s, proofLog = JStr (proofLog s), strictMode = JBool (strictMode s),
      deadlineTime = JStr (deadlineTime s), stakeBalance = stakeBalance s,
      stakePerMiss = stakePerMiss s, totalPenalties = totalPenalties s,
      lastPenaltyDate = JStr (lastPenaltyDate s)\<rparr>"

text \<open>
  A field of \<open>{...defaultState, ...parsed}\<close>: the value of \<open>parsed\<close> when it has the property,
  whatever its type, and the default otherwise.
\<close>

definition spreadField :: "jsval \<Rightarrow> string \<Rightarrow> jsval \<Rightarrow> jsval" where
  "spreadField parsed k dflt = (case ownProp parsed k of JUndefined \<Rightarrow> dflt | v \<Rightarrow> v)"

text \<open>\<open>typeof v === "number" && v >= 0 ? v : dflt\<close>\<close>

definition nonNegativeOr :: "jsval \<Rightarrow> rat \<Rightarrow> rat" where
  "nonNegativeOr v dflt = (case v of JNum x \<Rightarrow> (if x \<ge> 0 then x else dflt) | _ \<Rightarrow> dflt)"

text \<open>
  The object literal inside \<open>try\<close>. The first read of a property of \<open>parsed\<close> throws when
  \<open>parsed\<close> is \<open>null\<close>; after it, no other read can.
\<close>

definition buildState :: "jsval \<Rightarrow> error + (jsval, jsval) SavedState" where
  "buildState parsed =
     (case getProp parsed ''actions'' of
        Inl e \<Rightarrow> Inl e
      | Inr acts \<Rightarrow>
          Inr \<lparr>plannerGoal = spreadField parsed ''plannerGoal'' (JStr (plannerGoal defaultState)),
               plannerProblem =
                 spreadField parsed ''plannerProblem'' (JStr (plannerProblem defaultState)),
               actions = normalizeActions acts,
               proofLog = spreadField parsed ''proofLog'' (JStr (proofLog defaultState)),
               strictMode = spreadField parsed ''strictMode'' (JBool (strictMode defaultState)),
               deadlineTime =
                 spreadField parsed ''deadlineTime'' (JStr (deadlineTime defaultState)),
               stakeBalance =
                 nonNegativeOr (ownProp parsed ''stakeBalance'') (stakeBalance defaultState),
               stakePerMiss =
                 nonNegativeOr (ownProp parsed ''stakePerMiss'') (stakePerMiss defaultState),
               totalPenalties =
                 nonNegativeOr (ownProp parsed ''totalPenalties'') (totalPenalties defaultState),
               lastPenaltyDate =
                 spreadField parsed ''lastPenaltyDate'' (JStr (lastPenaltyDate defaultState))\<rparr>)"

text \<open>
  \<open>loadSavedState\<close>. \<open>JSON_parse\<close> is the platform's parser (\<open>Inl\<close> when it throws),
  \<open>hasWindow\<close> says whether \<open>window\<close> is defined, and the store is \<open>localStorage\<close>. The
  result is the state returned and the store afterwards.
\<close>

definition loadSavedState ::
  "(string \<Rightarrow> error + jsval) \<Rightarrow> bool \<Rightarrow> (string \<rightharpoonup> string) \<Rightarrow>
   (jsval, jsval) SavedState \<times> (string \<rightharpoonup> string)" where
  "loadSavedState JSON_parse hasWindow store =
     (if \<not> hasWindow then (asLoaded defaultState, store)
      else case store APP_STORAGE_KEY of
        None \<Rightarrow> (asLoaded defaultState, store)
      | Some saved \<Rightarrow>
          if saved = [] then (asLoaded defaultState, store)
          else (case JSON_parse saved of
                  Inl e \<Rightarrow> (asLoaded defaultState, store(APP_STORAGE_KEY := None))
                | Inr parsed \<Rightarrow>
                    (case buildState parsed of
                       Inl e \<Rightarrow> (asLoaded defaultState, store(APP_STORAGE_KEY := None))
                     | Inr s \<Rightarrow> (s, store))))"

text \<open>What the type \<open>SavedState\<close> promises of a loaded state: strings and a flag.\<close>

definition isStr :: "jsval \<Rightarrow> bool" where
  "isStr v = (case v of JStr s \<Rightarrow> True | _ \<Rightarrow> False)"

definition isBool :: "jsval \<Rightarrow> bool" where
  "isBool v = (case v of JBool b \<Rightarrow> True | _ \<Rightarrow> False)"

definition wellTypedState :: "(jsval, jsval) SavedState \<Rightarrow> bool" where
  "wellTypedState s =
     (isStr (plannerGoal s) \<and> isStr (plannerProblem s) \<and> isStr (proofLog s) \<and>
      isBool (strictMode s) \<and> isStr (deadlineTime s) \<and> isStr (lastPenaltyDate s))"

section \<open>Dates and the clock\<close>

text \<open>
  An instant is a number of milliseconds since the epoch, as \<open>getTime()\<close> returns it. The
  host's time zone is a fixed offset \<open>tz\<close>, in minutes east of UTC; daylight-saving changes
  are outside the model. A day is a number of days since 1970-01-01.

  The calendar of \<open>Date\<close> enters as two functions: \<open>dayOfKey k\<close> is the day that the date
  string \<open>k\<close> names, \<open>None\<close> when \<open>new Date(k + "T00:00:00")\<close> is an invalid date, and
  \<open>keyOfDay d\<close> is the date string of day \<open>d\<close>, which is \<open>toISOString().slice(0, 10)\<close> of
  every instant of that day of UTC.
\<close>

definition msPerMinute :: int where
  "msPerMinute = 60000"

definition msPerHour :: int where
  "msPerHour = 3600000"

definition msPerDay :: int where
  "msPerDay = 86400000"

text \<open>\<open>new Date(k + "T00:00:00")\<close>: a date-time without an offset is local time.\<close>

definition localMidnight :: "int \<Rightarrow> int \<Rightarrow> int" where
  "localMidnight tz d = d * msPerDay - tz * msPerMinute"

text \<open>The day of UTC an instant falls on: the date that \<open>toISOString\<close> prints.\<close>

definition utcDay :: "int \<Rightarrow> int" where
  "utcDay t = t div msPerDay"

subsection \<open>The calendar of ISO dates\<close>

text \<open>
  The proleptic Gregorian calendar for the years 0000 to 9999, where the first ten characters
  of \<open>toISOString()\<close> are \<open>YYYY-MM-DD\<close>. It instantiates \<open>keyOfDay\<close> and \<open>dayOfKey\<close> on
  concrete dates.
\<close>

definition civilFromDays :: "int \<Rightarrow> int \<times> int \<times> int" where
  "civilFromDays n =
     (let z = n + 719468;
          era = z div 146097;
          doe = z mod 146097;
          yoe = (doe - doe div 1460 + doe div 36524 - doe div 146096) div 365;
          doy = doe - (365 * yoe + yoe div 4 - yoe div 100);
          mp = (5 * doy + 2) div 153;
          d = doy - (153 * mp + 2) div 5 + 1;
          m = (if mp < 10 then mp + 3 else mp - 9);
          y = yoe + era * 400
      in (if m \<le> 2 then y + 1 else y, m, d))"

definition daysFromCivil :: "int \<Rightarrow> int \<Rightarrow> int \<Rightarrow> int" where
  "daysFromCivil y0 m d =
     (let y = (if m \<le> 2 then y0 - 1 else y0);
          era = y div 400;
          yoe = y mod 400;
          doy = (153 * (if m > 2 then m - 3 else m + 9) + 2) div 5 + d - 1;
          doe = yoe * 365 + yoe div 4 - yoe div 100 + doy
      in era * 146097 + doe - 719468)"

definition digitChar :: "int \<Rightarrow> char" where
  "digitChar n = ''0123456789'' ! nat (n mod 10)"

definition digitVal :: "char \<Rightarrow> int option" where
  "digitVal c = map_of (zip ''0123456789'' [0, 1, 2, 3, 4, 5, 6, 7, 8, 9]) c"

definition isoDateOfDay :: "int \<Rightarrow> string" where
  "isoDateOfDay n =
     (case civilFromDays n of
        (y, m, d) \<Rightarrow>
          [digitChar (y div 1000), digitChar (y div 100), digitChar (y div 10), digitChar y,
           CHR ''-'', digitChar (m div 10), digitChar m,
           CHR ''-'', digitChar (d div 10), digitChar d])"

definition dayOfIsoDate :: "string \<Rightarrow> int option" where
  "dayOfIsoDate k =
     (case map digitVal k of
        [Some y1, Some y2, Some y3, Some y4, None, Some m1, Some m2, None, Some d1, Some d2] \<Rightarrow>
          (let n = daysFromCivil (1000 * y1 + 100 * y2 + 10 * y3 + y4) (10 * m1 + m2) (10 * d1 + d2)
           in if isoDateOfDay n = k then Some n else None)
      | _ \<Rightarrow> None)"

section \<open>Streak calculator\<close>

text \<open>
  The \<open>while (true)\<close> loop. The cursor is an instant; \<open>setDate(getDate() - 1)\<close> moves it
  back by one day. The loop returns when the cursor's date is not in the set, which nothing
  in the loop itself forces to happen: not returning is the value \<open>None\<close>.
\<close>

partial_function (option) streakLoop ::
  "(int \<Rightarrow> string) \<Rightarrow> string set \<Rightarrow> int \<Rightarrow> nat \<Rightarrow> nat option" where
  "streakLoop keyOfDay daysWithCompletion cursor streak =
     (if keyOfDay (utcDay cursor) \<notin> daysWithCompletion then Some streak
      else streakLoop keyOfDay daysWithCompletion (cursor - msPerDay) (streak + 1))"

text \<open>
  \<open>getCurrentStreak\<close>. With an invalid date the first \<open>toISOString()\<close> throws a
  \<open>RangeError\<close>.
\<close>

definition getCurrentStreak ::
  "(string \<Rightarrow> int option) \<Rightarrow> (int \<Rightarrow> string) \<Rightarrow> int \<Rightarrow> ActionItem list \<Rightarrow> string \<Rightarrow>
   (error + nat) option" where
  "getCurrentStreak dayOfKey keyOfDay tz acts todayKey =
     (let daysWithCompletion = set (concat (map completedDates acts)) in
      case dayOfKey todayKey of
        None \<Rightarrow> Some (Inl RangeError)
      | Some d \<Rightarrow>
          map_option Inr (streakLoop keyOfDay daysWithCompletion (localMidnight tz d) 0))"

section \<open>Penalty engine\<close>

subsection \<open>Deadline\<close>

text \<open>\<open>"a:b:c".split(":")\<close>\<close>

fun splitOn :: "char \<Rightarrow> string \<Rightarrow> string list" where
  "splitOn sep [] = [[]]"
| "splitOn sep (c # cs) =
     (if c = sep then [] # splitOn sep cs
      else (c # hd (splitOn sep cs)) # tl (splitOn sep cs))"

text \<open>\<open>ToIntegerOrInfinity\<close> of a finite number: rounding towards zero.\<close>

definition truncate_rat :: "rat \<Rightarrow> int" where
  "truncate_rat x = (if x \<ge> 0 then \<lfloor>x\<rfloor> else \<lceil>x\<rceil>)"

text \<open>A time value is valid when \<open>TimeClip\<close> keeps it.\<close>

definition validTime :: "int \<Rightarrow> bool" where
  "validTime t = (\<bar>t\<bar> \<le> 8640000000000000)"

text \<open>
  \<open>deadline.setHours(h, m, 0, 0)\<close> on a copy of \<open>now\<close>: the local day of \<open>now\<close>, at \<open>h\<close>
  hours and \<open>m\<close> minutes; \<open>None\<close> is the invalid date.
\<close>

definition setHours :: "int \<Rightarrow> int \<Rightarrow> rat \<Rightarrow> rat \<Rightarrow> int option" where
  "setHours tz now h m =
     (let localDay = (now + tz * msPerMinute) div msPerDay;
          t = localDay * msPerDay + truncate_rat h * msPerHour + truncate_rat m * msPerMinute
              - tz * msPerMinute
      in if validTime t then Some t else None)"

text \<open>
  \<open>isPastDeadline\<close>. \<open>Number\<close> is the platform's conversion of a string to a number,
  \<open>None\<close> when the result is not finite (\<open>NaN\<close> or an infinity); a missing second part is
  \<open>undefined\<close>, which is not finite either. The platform converts a numeral to its value,
  a text that is no numeral to \<open>NaN\<close>, and the empty string to 0. A comparison with the
  time value of an invalid date is false.
\<close>

definition isPastDeadline :: "(string \<Rightarrow> rat option) \<Rightarrow> int \<Rightarrow> int \<Rightarrow> string \<Rightarrow> bool" where
  "isPastDeadline Number tz now deadlineText =
     (case splitOn CHR '':'' deadlineText of
        hs # ms # rest \<Rightarrow>
          (case (Number hs, Number ms) of
             (Some h, Some m) \<Rightarrow>
               (case setHours tz now h m of
                  Some deadline \<Rightarrow> now > deadline
                | None \<Rightarrow> False)
           | _ \<Rightarrow> False)
      | _ \<Rightarrow> False)"

text \<open>
  A conversion to run the model on concrete deadlines: an unsigned decimal numeral converts
  to its value and the empty string to 0, as the platform's \<open>Number\<close> does; every other
  text is not a number here.
\<close>

definition decimalNumber :: "string \<Rightarrow> rat option" where
  "decimalNumber s =
     (if list_all (\<lambda>c. digitVal c \<noteq> None) s
      then Some (of_int (foldl (\<lambda>acc c. 10 * acc + the (digitVal c)) 0 s))
      else None)"

subsection \<open>Amounts\<close>

text \<open>
  The amounts are IEEE doubles. A sum or a difference that the program computes is the exact
  result rounded to the nearest double, to the even significand on a tie: \<open>roundDouble\<close>,
  for results in the range of the normal doubles (overflow and the subnormal numbers are
  outside the model). \<open>floorLog2 n\<close> is the position of the leading bit of \<open>n\<close>,
  \<open>exponentOf x\<close> the largest \<open>e\<close> with \<open>2 ^ e \<le> \<bar>x\<bar>\<close>, and a double has a significand of 53
  bits.
\<close>

function floorLog2 :: "int \<Rightarrow> int" where
  "floorLog2 n = (if n < 2 then 0 else 1 + floorLog2 (n div 2))"
  by pat_completeness auto
termination
  by (relation "measure nat") auto

declare floorLog2.simps [simp del]

definition pow2 :: "int \<Rightarrow> rat" where
  "pow2 e = (if e \<ge> 0 then 2 ^ nat e else 1 / 2 ^ nat (- e))"

definition exponentOf :: "rat \<Rightarrow> int" where
  "exponentOf x =
     (case quotient_of \<bar>x\<bar> of
        (p, q) \<Rightarrow>
          (let k = floorLog2 p - floorLog2 q
           in if \<bar>x\<bar> < pow2 k then k - 1 else k))"

definition roundHalfEven :: "rat \<Rightarrow> int" where
  "roundHalfEven m =
     (let f = \<lfloor>m\<rfloor>; d = m - of_int f
      in if d < 1 / 2 then f else if d > 1 / 2 then f + 1 else if even f then f else f + 1)"

definition roundDouble :: "rat \<Rightarrow> rat" where
  "roundDouble x =
     (if x = 0 then 0
      else let e = exponentOf x - 52
           in sgn x * (of_int (roundHalfEven (\<bar>x\<bar> / pow2 e)) * pow2 e))"

subsection \<open>State of the component\<close>

text \<open>
  The state of \<open>Home\<close> that the penalty touches: the fields of \<open>SavedState\<close> and the counter
  \<open>lastCelebration\<close>. The derived values \<open>missedTasks\<close>, \<open>rawPenalty\<close>, \<open>penaltyToday\<close> and
  \<open>canApplyPenalty\<close> are constants of a render: functions of the state that was rendered and
  of the clock at that render.
\<close>

record ('s, 'b) HomeState = "('s, 'b) SavedState" +
  lastCelebration :: nat

type_synonym Home = "(string, bool) HomeState"

definition missedTasks :: "string \<Rightarrow> Home \<Rightarrow> nat" where
  "missedTasks todayKey s =
     length (filter (\<lambda>action. todayKey \<notin> set (completedDates action)) (actions s))"

definition rawPenalty :: "string \<Rightarrow> Home \<Rightarrow> rat" where
  "rawPenalty todayKey s = of_nat (missedTasks todayKey s) * stakePerMiss s"

definition penaltyToday :: "string \<Rightarrow> Home \<Rightarrow> rat" where
  "penaltyToday todayKey s = min (stakeBalance s) (rawPenalty todayKey s)"

definition canApplyPenalty ::
  "(string \<Rightarrow> rat option) \<Rightarrow> int \<Rightarrow> int \<Rightarrow> string \<Rightarrow> Home \<Rightarrow> bool" where
  "canApplyPenalty Number tz now todayKey s =
     (strictMode s \<and> isPastDeadline Number tz now (deadlineTime s) \<and>
      missedTasks todayKey s > 0 \<and> lastPenaltyDate s \<noteq> todayKey \<and> stakeBalance s > 0)"

text \<open>
  The handler \<open>applyPenalty\<close> of a render. It tests the \<open>canApplyPenalty\<close> and the
  \<open>penaltyToday\<close> of the state \<open>rendered\<close>, the one its render saw, and it queues the
  updaters \<open>(current) => Math.max(0, current - penaltyToday)\<close> and
  \<open>(current) => current + penaltyToday\<close>, which run on the state \<open>current\<close> at the time of
  the invocation. The two states are the same when the component has rendered since the
  last change of state, which is the case when the invocations are separate press events.
\<close>

definition applyPenalty ::
  "(string \<Rightarrow> rat option) \<Rightarrow> int \<Rightarrow> int \<Rightarrow> string \<Rightarrow> Home \<Rightarrow> Home \<Rightarrow> Home" where
  "applyPenalty Number tz now todayKey rendered current =
     (if \<not> canApplyPenalty Number tz now todayKey rendered \<or> penaltyToday todayKey rendered \<le> 0
      then current
      else current
        \<lparr>stakeBalance :=
           max 0 (roundDouble (stakeBalance current - penaltyToday todayKey rendered)),
         totalPenalties := roundDouble (totalPenalties current + penaltyToday todayKey rendered),
         lastPenaltyDate := todayKey,
         lastCelebration := lastCelebration current + 1\<rparr>)"

section \<open>Auxiliary notions for the statements\<close>

text \<open>
  The normalizer's specification with a starting set of keys, as the induction over the
  candidate list needs it.
\<close>

definition firstSeenFrom :: "string set \<Rightarrow> ActionItem list \<Rightarrow> ActionItem list" where
  "firstSeenFrom seen xs =
     map (\<lambda>i. xs ! i)
       (filter (\<lambda>i. textKey (xs ! i) \<noteq> [] \<and>
                     textKey (xs ! i) \<notin> seen \<union> set (map textKey (take i xs)))
          [0..<length xs])"

text \<open>
  The two components of a deadline string: the text before the first colon, and the text
  between the first colon and the second, which is missing when there is no colon.
\<close>

definition hourPart :: "string \<Rightarrow> string" where
  "hourPart dl = takeWhile (\<lambda>c. c \<noteq> CHR '':'') dl"

definition minutePart :: "string \<Rightarrow> string option" where
  "minutePart dl =
     (case dropWhile (\<lambda>c. c \<noteq> CHR '':'') dl of
        [] \<Rightarrow> None
      | c # rest \<Rightarrow> Some (takeWhile (\<lambda>c. c \<noteq> CHR '':'') rest))"

section \<open>Concrete inputs\<close>

text \<open>
  A component state with one task, not done, a balance of 10 and a rate of 15 per miss; the
  day 2024-03-10 and two instants of it, 20:59 and 21:01 UTC.
\<close>

definition exampleHome :: Home where
  "exampleHome =
     \<lparr>plannerGoal = ''finish methods section draft'',
      plannerProblem = ''i overthink and delay starting'',
      actions = [\<lparr>item_id = ''a1'', item_text = ''Outline the next 3 steps'',
                  completedDates = []\<rparr>],
      proofLog = [], strictMode = True, deadlineTime = ''21:00'', stakeBalance = 10,
      stakePerMiss = 15, totalPenalties = 0, lastPenaltyDate = [], lastCelebration = 0\<rparr>"

definition exampleToday :: string where
  "exampleToday = ''2024-03-10''"

text \<open>
  The same state with amounts that are not whole numbers: a balance of 19.99 and penalties
  of 0.1 so far, each the double nearest to the decimal.
\<close>

definition roundingHome :: Home where
  "roundingHome =
     exampleHome\<lparr>stakeBalance := roundDouble (1999 / 100), totalPenalties := roundDouble (1 / 10)\<rparr>"

definition at2059 :: int where
  "at2059 = 1710104340000"

definition at2101 :: int where
  "at2101 = 1710104460000"

definition doneOn :: "string list \<Rightarrow> ActionItem" where
  "doneOn ds = \<lparr>item_id = ''a1'', item_text = ''write one sentence'', completedDates = ds\<rparr>"

text \<open>
  A persisted blob with a field of the wrong type, \<open>{"deadlineTime":5}\<close>, and a parser that
  knows this text and \<open>null\<close> and rejects every other.
\<close>

definition wrongTypeBlob :: string where
  "wrongTypeBlob = ''{'' @ [CHR 0x22] @ ''deadlineTime'' @ [CHR 0x22] @ '':5}''"

definition parseSample :: "string \<Rightarrow> error + jsval" where
  "parseSample raw =
     (if raw = wrongTypeBlob then Inr (JObj [(''deadlineTime'', JNum 5)])
      else if raw = ''null'' then Inr JNull
      else Inl SyntaxError)"

text \<open>
  Candidate entries: a task, a string, the same task in another spelling, an entry whose id
  is a number, an entry whose key is empty, and a task with a date and a number among its
  dates.
\<close>

definition sampleCandidates :: "jsval list" where
  "sampleCandidates =
     [JObj [(''id'', JStr ''1''), (''text'', JStr ''Read paper'')],
      JStr ''junk'',
      JObj [(''id'', JStr ''2''), (''text'', JStr ''read  PAPER!'')],
      JObj [(''id'', JNum 3), (''text'', JStr ''x'')],
      JObj [(''id'', JStr ''4''), (''text'', JStr ''???'')],
      JObj [(''id'', JStr ''5''), (''text'', JStr ''Write''),
            (''completedDates'', JArr [JStr ''2024-03-10'', JNum 3])]]"

section \<open>Lemmas\<close>

subsection \<open>Strings and the classifier\<close>

lemma startsWith_prefix: "startsWith t p \<longleftrightarrow> prefix p t"
  by (induction t p rule: startsWith.induct) auto

lemma set_tails: "set (tails t) = {s. suffix s t}"
  by (induction t) (auto simp: suffix_Cons)

lemma str_includes_sublist: "str_includes t p \<longleftrightarrow> sublist p t"
  unfolding str_includes_def list_ex_iff set_tails startsWith_prefix sublist_def
  by (auto simp: prefix_def suffix_def)

lemma test_alt_sublist: "test_alt ps t \<longleftrightarrow> list_ex (\<lambda>p. sublist p t) ps"
  by (simp add: test_alt_def str_includes_sublist)

lemma toLowerCase_append: "toLowerCase (a @ b) = toLowerCase a @ toLowerCase b"
  by (simp add: toLowerCase_def)

subsection \<open>The normalizer\<close>

lemma keepUnseen_map_toItem:
  "keepUnseen seen (map toItem vs) = keepUnseen seen (map Some (wellTyped vs))"
proof (induction vs arbitrary: seen)
  case Nil
  show ?case by (simp add: wellTyped_def map_filter_simps)
next
  case (Cons v vs)
  show ?case
  proof (cases "toItem v")
    case None
    then show ?thesis using Cons.IH by (simp add: wellTyped_def map_filter_simps)
  next
    case (Some a)
    then show ?thesis using Cons.IH by (simp add: wellTyped_def map_filter_simps Let_def)
  qed
qed

lemma keepUnseen_keys:
  "set (map textKey (keepUnseen seen (map Some xs))) = set (map textKey xs) - seen - {[]}"
proof (induction xs arbitrary: seen)
  case Nil
  show ?case by simp
next
  case (Cons x xs)
  show ?case using Cons.IH by (auto simp: Let_def textKey_def)
qed

lemma keepUnseen_distinct: "distinct (map textKey (keepUnseen seen (map Some xs)))"
proof (induction xs arbitrary: seen)
  case Nil
  show ?case by simp
next
  case (Cons x xs)
  have "textKey x \<notin> set (map textKey (keepUnseen (insert (textKey x) seen) (map Some xs)))"
    unfolding keepUnseen_keys by simp
  then show ?case using Cons.IH by (simp add: Let_def textKey_def)
qed

lemma keepUnseen_subseq: "subseq (keepUnseen seen (map Some xs)) xs"
proof (induction xs arbitrary: seen)
  case Nil
  show ?case by simp
next
  case (Cons x xs)
  show ?case using Cons.IH by (auto simp: Let_def)
qed

lemma keepUnseen_fixed:
  "distinct (map textKey xs) \<Longrightarrow> [] \<notin> set (map textKey xs) \<Longrightarrow>
   seen \<inter> set (map textKey xs) = {} \<Longrightarrow> keepUnseen seen (map Some xs) = xs"
proof (induction xs arbitrary: seen)
  case Nil
  show ?case by simp
next
  case (Cons x xs)
  have "insert (textKey x) seen \<inter> set (map textKey xs) = {}"
    using Cons.prems by auto
  then have "keepUnseen (insert (textKey x) seen) (map Some xs) = xs"
    using Cons.IH Cons.prems by simp
  then show ?case using Cons.prems by (auto simp: Let_def textKey_def)
qed

lemma filter_upt_Suc:
  "filter P [0..<Suc n] = (if P 0 then [0] else []) @ map Suc (filter (\<lambda>i. P (Suc i)) [0..<n])"
proof -
  have "[0..<Suc n] = 0 # map Suc [0..<n]"
    by (simp add: upt_conv_Cons map_Suc_upt del: upt_Suc)
  then show ?thesis by (simp add: filter_map comp_def del: upt_Suc)
qed

lemma firstSeenFrom_Cons:
  "firstSeenFrom seen (x # xs) =
     (if textKey x \<noteq> [] \<and> textKey x \<notin> seen then [x] else [])
     @ firstSeenFrom (insert (textKey x) seen) xs"
proof -
  let ?P = "\<lambda>i. textKey ((x # xs) ! i) \<noteq> [] \<and>
                textKey ((x # xs) ! i) \<notin> seen \<union> set (map textKey (take i (x # xs)))"
  let ?Q = "\<lambda>i. textKey (xs ! i) \<noteq> [] \<and>
                textKey (xs ! i) \<notin> insert (textKey x) seen \<union> set (map textKey (take i xs))"
  have PQ: "(\<lambda>i. ?P (Suc i)) = ?Q"
    by (rule ext) auto
  have "firstSeenFrom seen (x # xs) = map (\<lambda>i. (x # xs) ! i) (filter ?P [0..<Suc (length xs)])"
    by (simp add: firstSeenFrom_def del: upt_Suc)
  also have "\<dots> = map (\<lambda>i. (x # xs) ! i)
                 ((if ?P 0 then [0] else []) @ map Suc (filter ?Q [0..<length xs]))"
    by (simp only: filter_upt_Suc PQ)
  also have "\<dots> = (if textKey x \<noteq> [] \<and> textKey x \<notin> seen then [x] else [])
                 @ map (\<lambda>i. xs ! i) (filter ?Q [0..<length xs])"
    by (simp add: comp_def del: upt_Suc)
  finally show ?thesis
    by (simp only: firstSeenFrom_def)
qed

lemma firstSeenFrom_absorb:
  "k = [] \<or> k \<in> seen \<Longrightarrow> firstSeenFrom (insert k seen) xs = firstSeenFrom seen xs"
  unfolding firstSeenFrom_def
  by (rule arg_cong[where f = "map (\<lambda>i. xs ! i)"], rule filter_cong) auto

lemma keepUnseen_firstSeenFrom: "keepUnseen seen (map Some xs) = firstSeenFrom seen xs"
proof (induction xs arbitrary: seen)
  case Nil
  show ?case by (simp add: firstSeenFrom_def)
next
  case (Cons x xs)
  show ?case
  proof (cases "textKey x = [] \<or> textKey x \<in> seen")
    case True
    then have "firstSeenFrom (insert (textKey x) seen) xs = firstSeenFrom seen xs"
      by (rule firstSeenFrom_absorb)
    with True show ?thesis
      using Cons.IH[of seen] by (auto simp: firstSeenFrom_Cons Let_def textKey_def)
  next
    case False
    then show ?thesis
      using Cons.IH[of "insert (textKey x) seen"]
      by (auto simp: firstSeenFrom_Cons Let_def textKey_def)
  qed
qed

lemma firstSeenFrom_empty: "firstSeenFrom {} xs = firstSeen xs"
  by (simp add: firstSeenFrom_def firstSeen_def)

lemma stringsOf_JStr: "stringsOf (map JStr ds) = ds"
  by (induction ds) (simp_all add: stringsOf_def map_filter_simps)

lemma toItem_itemToJs: "toItem (itemToJs a) = Some a"
  by (simp add: toItem_def itemToJs_def ownProp_def stringsOf_JStr)

lemma wellTyped_itemToJs: "wellTyped (map itemToJs xs) = xs"
  by (induction xs) (simp_all add: wellTyped_def map_filter_simps toItem_itemToJs)

subsection \<open>The codec\<close>

text \<open>
  A parse failure, and a blob that parses to \<open>null\<close>, give the default state and remove the
  blob; an object without fields gives the default state; the three numbers of a loaded
  state are never negative.
\<close>

lemma loadSavedState_parse_failure:
  assumes "store APP_STORAGE_KEY = Some saved" "saved \<noteq> []" "JSON_parse saved = Inl e"
  shows "loadSavedState JSON_parse True store
         = (asLoaded defaultState, store(APP_STORAGE_KEY := None))"
  using assms by (simp add: loadSavedState_def)

lemma loadSavedState_null:
  assumes "store APP_STORAGE_KEY = Some saved" "saved \<noteq> []" "JSON_parse saved = Inr JNull"
  shows "loadSavedState JSON_parse True store
         = (asLoaded defaultState, store(APP_STORAGE_KEY := None))"
  using assms by (simp add: loadSavedState_def buildState_def getProp_def)

lemma loadSavedState_missing_fields:
  assumes "store APP_STORAGE_KEY = Some saved" "saved \<noteq> []" "JSON_parse saved = Inr (JObj [])"
  shows "loadSavedState JSON_parse True store = (asLoaded defaultState, store)"
  using assms
  by (simp add: loadSavedState_def buildState_def getProp_def ownProp_def spreadField_def
      nonNegativeOr_def normalizeActions_def asLoaded_def defaultState_def)

lemma loadSavedState_not_json:
  "loadSavedState parseSample True [APP_STORAGE_KEY \<mapsto> ''not json'']
   = (asLoaded defaultState, Map.empty)"
  by (simp add: loadSavedState_def parseSample_def wrongTypeBlob_def)

lemma nonNegativeOr_nonneg: "0 \<le> dflt \<Longrightarrow> 0 \<le> nonNegativeOr v dflt"
  by (cases v) (simp_all add: nonNegativeOr_def)

lemma loadSavedState_numbers:
  "0 \<le> stakeBalance (fst (loadSavedState JSON_parse w store))
   \<and> 0 \<le> stakePerMiss (fst (loadSavedState JSON_parse w store))
   \<and> 0 \<le> totalPenalties (fst (loadSavedState JSON_parse w store))"
  by (auto simp: loadSavedState_def buildState_def asLoaded_def defaultState_def
      nonNegativeOr_nonneg split: option.splits sum.splits)

subsection \<open>The streak loop\<close>

declare streakLoop.simps [code]

lemma utcDay_back: "utcDay (c - msPerDay) = utcDay c - 1"
proof -
  have "c - msPerDay = msPerDay * (c div msPerDay - 1) + c mod msPerDay"
    by (simp add: algebra_simps)
  moreover have "0 \<le> c mod msPerDay" "c mod msPerDay < msPerDay"
    by (simp_all add: msPerDay_def)
  ultimately have "(c - msPerDay) div msPerDay = c div msPerDay - 1"
    by (rule int_div_pos_eq)
  then show ?thesis by (simp add: utcDay_def)
qed

text \<open>
  The loop returns, with the number of days it found: from a cursor on day \<open>u\<close>, when the
  dates of \<open>u\<close>, \<open>u - 1\<close>, ..., \<open>u - k + 1\<close> are in the set and the date of \<open>u - k\<close> is not,
  it adds \<open>k\<close> to the count.
\<close>

lemma streakLoop_walk:
  "(\<And>i. i < k \<Longrightarrow> keyOfDay (utcDay c - int i) \<in> D) \<Longrightarrow> keyOfDay (utcDay c - int k) \<notin> D \<Longrightarrow>
   streakLoop keyOfDay D c acc = Some (acc + k)"
proof (induction k arbitrary: c acc)
  case 0
  then show ?case by (subst streakLoop.simps) simp
next
  case (Suc k)
  have here: "keyOfDay (utcDay c) \<in> D"
    using Suc.prems(1)[of 0] by simp
  have "streakLoop keyOfDay D (c - msPerDay) (acc + 1) = Some (acc + 1 + k)"
  proof (rule Suc.IH)
    fix i assume "i < k"
    then show "keyOfDay (utcDay (c - msPerDay) - int i) \<in> D"
      using Suc.prems(1)[of "Suc i"] by (simp add: utcDay_back algebra_simps)
  next
    show "keyOfDay (utcDay (c - msPerDay) - int k) \<notin> D"
      using Suc.prems(2) by (simp add: utcDay_back algebra_simps)
  qed
  then show ?case using here by (subst streakLoop.simps) simp
qed

text \<open>
  Local midnight of day \<open>d\<close> is an instant of day \<open>d\<close> of UTC when the zone is UTC or west of
  it, and an instant of day \<open>d - 1\<close> when the zone is east of UTC.
\<close>

lemma utcDay_localMidnight_west:
  assumes "- 1440 < tz" "tz \<le> 0"
  shows "utcDay (localMidnight tz d) = d"
proof -
  have "d * msPerDay - tz * msPerMinute = msPerDay * d + (- tz * msPerMinute)"
    by simp
  moreover have "0 \<le> - tz * msPerMinute" "- tz * msPerMinute < msPerDay"
    using assms by (simp_all add: msPerDay_def msPerMinute_def)
  ultimately have "(d * msPerDay - tz * msPerMinute) div msPerDay = d"
    by (rule int_div_pos_eq)
  then show ?thesis by (simp add: utcDay_def localMidnight_def)
qed

lemma utcDay_localMidnight_east:
  assumes "0 < tz" "tz \<le> 1440"
  shows "utcDay (localMidnight tz d) = d - 1"
proof -
  have "d * msPerDay - tz * msPerMinute = msPerDay * (d - 1) + (msPerDay - tz * msPerMinute)"
    by (simp add: algebra_simps)
  moreover have "0 \<le> msPerDay - tz * msPerMinute" "msPerDay - tz * msPerMinute < msPerDay"
    using assms by (simp_all add: msPerDay_def msPerMinute_def)
  ultimately have "(d * msPerDay - tz * msPerMinute) div msPerDay = d - 1"
    by (rule int_div_pos_eq)
  then show ?thesis by (simp add: utcDay_def localMidnight_def)
qed

text \<open>
  In a zone at or west of UTC the streak is the number of consecutive days with a completion
  that end at \<open>todayKey\<close>. In a zone east of UTC the walk starts one day early: the streak
  is the number of consecutive days with a completion that end at the day before
  \<open>todayKey\<close>, whatever was done on \<open>todayKey\<close> itself.
\<close>

lemma getCurrentStreak_at_or_west_of_utc:
  assumes "- 1440 < tz" "tz \<le> 0" "dayOfKey todayKey = Some d"
      and "\<And>i. i < k \<Longrightarrow> keyOfDay (d - int i) \<in> set (concat (map completedDates acts))"
      and "keyOfDay (d - int k) \<notin> set (concat (map completedDates acts))"
  shows "getCurrentStreak dayOfKey keyOfDay tz acts todayKey = Some (Inr k)"
proof -
  define D where "D = set (concat (map completedDates acts))"
  have u: "utcDay (localMidnight tz d) = d"
    using assms(1,2) by (rule utcDay_localMidnight_west)
  have "streakLoop keyOfDay D (localMidnight tz d) 0 = Some (0 + k)"
  proof (rule streakLoop_walk)
    fix i assume "i < k"
    then show "keyOfDay (utcDay (localMidnight tz d) - int i) \<in> D"
      unfolding u D_def by (rule assms(4))
  next
    show "keyOfDay (utcDay (localMidnight tz d) - int k) \<notin> D"
      unfolding u D_def by (rule assms(5))
  qed
  then show ?thesis using assms(3) by (simp add: getCurrentStreak_def D_def)
qed

lemma getCurrentStreak_east_of_utc:
  assumes "0 < tz" "tz \<le> 1440" "dayOfKey todayKey = Some d"
      and "\<And>i. i < k \<Longrightarrow> keyOfDay (d - 1 - int i) \<in> set (concat (map completedDates acts))"
      and "keyOfDay (d - 1 - int k) \<notin> set (concat (map completedDates acts))"
  shows "getCurrentStreak dayOfKey keyOfDay tz acts todayKey = Some (Inr k)"
proof -
  define D where "D = set (concat (map completedDates acts))"
  have u: "utcDay (localMidnight tz d) = d - 1"
    using assms(1,2) by (rule utcDay_localMidnight_east)
  have "streakLoop keyOfDay D (localMidnight tz d) 0 = Some (0 + k)"
  proof (rule streakLoop_walk)
    fix i assume "i < k"
    then show "keyOfDay (utcDay (localMidnight tz d) - int i) \<in> D"
      unfolding u D_def by (rule assms(4))
  next
    show "keyOfDay (utcDay (localMidnight tz d) - int k) \<notin> D"
      unfolding u D_def by (rule assms(5))
  qed
  then show ?thesis using assms(3) by (simp add: getCurrentStreak_def D_def)
qed

lemma getCurrentStreak_utc_example:
  "getCurrentStreak dayOfIsoDate isoDateOfDay 0 [doneOn [exampleToday]] exampleToday
   = Some (Inr 1)"
  by code_simp

subsection \<open>The deadline\<close>

lemma splitOn_not_Nil: "splitOn sep s \<noteq> []"
  by (induction s) auto

lemma hd_splitOn: "hd (splitOn sep s) = takeWhile (\<lambda>c. c \<noteq> sep) s"
  by (induction s) auto

lemma tl_splitOn:
  "tl (splitOn sep s) =
     (case dropWhile (\<lambda>c. c \<noteq> sep) s of [] \<Rightarrow> [] | c # rest \<Rightarrow> splitOn sep rest)"
  by (induction s) auto

lemma splitOn_parts:
  "splitOn CHR '':'' dl =
     (case minutePart dl of
        None \<Rightarrow> [hourPart dl]
      | Some ms \<Rightarrow> hourPart dl # ms #
          tl (splitOn CHR '':'' (tl (dropWhile (\<lambda>c. c \<noteq> CHR '':'') dl))))"
proof -
  have "splitOn CHR '':'' dl = hd (splitOn CHR '':'' dl) # tl (splitOn CHR '':'' dl)"
    using splitOn_not_Nil[of "CHR '':''" dl] by simp
  also have "\<dots> = hourPart dl # tl (splitOn CHR '':'' dl)"
    by (simp add: hd_splitOn hourPart_def)
  finally have a: "splitOn CHR '':'' dl = hourPart dl # tl (splitOn CHR '':'' dl)" .
  show ?thesis
  proof (cases "dropWhile (\<lambda>c. c \<noteq> CHR '':'') dl")
    case Nil
    have "minutePart dl = None"
      by (simp only: minutePart_def Nil list.case)
    moreover have "tl (splitOn CHR '':'' dl) = []"
      by (simp only: tl_splitOn Nil list.case)
    ultimately show ?thesis using a by simp
  next
    case (Cons c rest)
    have "splitOn CHR '':'' rest = hd (splitOn CHR '':'' rest) # tl (splitOn CHR '':'' rest)"
      using splitOn_not_Nil[of "CHR '':''" rest] by simp
    then have r: "splitOn CHR '':'' rest
               = takeWhile (\<lambda>c. c \<noteq> CHR '':'') rest # tl (splitOn CHR '':'' rest)"
      by (simp add: hd_splitOn)
    have "minutePart dl = Some (takeWhile (\<lambda>c. c \<noteq> CHR '':'') rest)"
      by (simp only: minutePart_def Cons list.case)
    moreover have "tl (splitOn CHR '':'' dl) = splitOn CHR '':'' rest"
      by (simp only: tl_splitOn Cons list.case)
    moreover have "tl (dropWhile (\<lambda>c. c \<noteq> CHR '':'') dl) = rest"
      by (simp only: Cons list.sel)
    ultimately show ?thesis using a r by simp
  qed
qed

lemma truncate_rat_of_int: "truncate_rat (of_int n) = n"
  by (simp add: truncate_rat_def)

lemma setHours_near:
  assumes "0 \<le> h" "h < 24" "0 \<le> m" "m < 60"
      and "validTime (now - msPerDay)" "validTime (now + msPerDay)"
  shows "setHours tz now (of_int h) (of_int m)
         = Some ((now + tz * msPerMinute) div msPerDay * msPerDay + h * msPerHour
                 + m * msPerMinute - tz * msPerMinute)"
proof -
  define L where "L = now + tz * msPerMinute"
  define D where "D = L div msPerDay * msPerDay"
  have "L = D + L mod msPerDay"
    by (simp add: D_def)
  moreover have "0 \<le> L mod msPerDay" "L mod msPerDay < msPerDay"
    by (simp_all add: msPerDay_def)
  ultimately have d: "D \<le> L" "L < D + msPerDay"
    by linarith+
  define t where "t = D + h * msPerHour + m * msPerMinute - tz * msPerMinute"
  have "now - msPerDay \<le> t" "t \<le> now + msPerDay"
    using d assms(1-4) unfolding t_def L_def msPerDay_def msPerHour_def msPerMinute_def
    by linarith+
  then have "validTime t"
    using assms(5,6) unfolding validTime_def by linarith
  then show ?thesis
    by (simp add: setHours_def truncate_rat_of_int Let_def t_def D_def L_def)
qed

subsection \<open>The penalty\<close>

lemma penaltyToday_le: "penaltyToday tk s \<le> stakeBalance s"
  by (simp add: penaltyToday_def)

lemma pow2_pos: "0 < pow2 e"
  by (simp add: pow2_def)

lemma roundHalfEven_nonneg: "0 \<le> m \<Longrightarrow> 0 \<le> roundHalfEven m"
  by (simp add: roundHalfEven_def Let_def)

lemma roundDouble_nonneg: "0 \<le> x \<Longrightarrow> 0 \<le> roundDouble x"
proof (cases "x = 0")
  case True
  then show ?thesis by (simp add: roundDouble_def)
next
  case False
  assume "0 \<le> x"
  with False have pos: "0 < x" by simp
  let ?e = "exponentOf x - 52"
  have "0 \<le> \<bar>x\<bar> / pow2 ?e"
    using pow2_pos[of ?e] by simp
  then have "0 \<le> roundHalfEven (\<bar>x\<bar> / pow2 ?e)"
    by (rule roundHalfEven_nonneg)
  then have "0 \<le> (of_int (roundHalfEven (\<bar>x\<bar> / pow2 ?e)) :: rat) * pow2 ?e"
    using pow2_pos[of ?e] by simp
  then show ?thesis
    using pos False by (simp add: roundDouble_def Let_def)
qed

text \<open>Rounding on familiar numbers: 0.1 + 0.2 is 0.30000000000000004, and 10 is a double.\<close>

lemma roundDouble_examples:
  "roundDouble (1 / 10) = 3602879701896397 / 36028797018963968
   \<and> roundDouble (roundDouble (1 / 10) + roundDouble (2 / 10))
       = 5404319552844596 / 18014398509481984
   \<and> roundDouble 10 = 10 \<and> roundDouble (9007199254740992 + 5) = 9007199254740996"
  by code_simp

lemma exampleHome_can: "canApplyPenalty decimalNumber 0 at2101 exampleToday exampleHome"
  by code_simp

lemma exampleHome_penalty: "penaltyToday exampleToday exampleHome = 10"
  by (simp add: penaltyToday_def rawPenalty_def missedTasks_def exampleHome_def)

text \<open>
  Two invocations of the handler of one render, with no render between them, both charge:
  the second still sees the \<open>canApplyPenalty\<close> of the state before the first.
\<close>

lemma applyPenalty_same_render_twice:
  "totalPenalties
     (applyPenalty decimalNumber 0 at2101 exampleToday exampleHome
        (applyPenalty decimalNumber 0 at2101 exampleToday exampleHome exampleHome))
   = 20"
  by code_simp

section \<open>The claims\<close>

subsection \<open>Penalty engine\<close>

text \<open>
  C1. Penalty application happens at most once per calendar day, under the assumption that
  the component has rendered between two invocations: the second invocation is the handler
  of a render of the state \<open>rendered\<close> that the first invocation left. Then a second
  invocation at the same instant changes nothing. And once an application has succeeded
  (\<open>canApplyPenalty\<close> held and \<open>penaltyToday\<close> was positive), \<open>lastPenaltyDate\<close> is
  \<open>todayKey\<close>, so that for this \<open>todayKey\<close> the \<open>canApplyPenalty\<close> of every render of the
  resulting state is false, at every instant, and the handler of such a render returns the
  current state unchanged, whatever it is: neither \<open>stakeBalance\<close> nor \<open>totalPenalties\<close>
  moves a second time.
\<close>

theorem applyPenalty_once_per_day:
  assumes "rendered = applyPenalty N tz now tk s s"
  shows "applyPenalty N tz now tk rendered rendered = rendered
         \<and> (canApplyPenalty N tz now tk s \<and> penaltyToday tk s > 0 \<longrightarrow>
              lastPenaltyDate rendered = tk
              \<and> (\<forall>N' tz' now' current.
                   \<not> canApplyPenalty N' tz' now' tk rendered
                   \<and> applyPenalty N' tz' now' tk rendered current = current))"
  unfolding assms by (simp add: applyPenalty_def canApplyPenalty_def)

text \<open>
  The example state at 21:01, past its deadline of 21:00: the penalty applies, the balance
  goes from 10 to 0 and the penalties from 0 to 10, and the handler of the next render,
  invoked one second later, leaves both as they are.
\<close>

theorem applyPenalty_once_per_day_witness:
  "canApplyPenalty decimalNumber 0 at2101 exampleToday exampleHome
   \<and> penaltyToday exampleToday exampleHome > 0
   \<and> lastPenaltyDate (applyPenalty decimalNumber 0 at2101 exampleToday exampleHome exampleHome)
       = exampleToday
   \<and> totalPenalties (applyPenalty decimalNumber 0 at2101 exampleToday exampleHome exampleHome)
       = 10
   \<and> applyPenalty decimalNumber 0 (at2101 + 1000) exampleToday
        (applyPenalty decimalNumber 0 at2101 exampleToday exampleHome exampleHome)
        (applyPenalty decimalNumber 0 at2101 exampleToday exampleHome exampleHome)
      = applyPenalty decimalNumber 0 at2101 exampleToday exampleHome exampleHome"
proof -
  have t: "totalPenalties (applyPenalty decimalNumber 0 at2101 exampleToday exampleHome exampleHome)
           = 10"
    by code_simp
  show ?thesis
    using applyPenalty_once_per_day [OF refl, of decimalNumber 0 at2101 exampleToday exampleHome]
      exampleHome_can exampleHome_penalty t
    by simp
qed

text \<open>
  C2. With a balance and a rate that are not negative, and any number of missed tasks,
  \<open>penaltyToday\<close> is the smaller of the balance and \<open>missedTasks \<times> stakePerMiss\<close>, it lies
  between 0 and the balance, and the balance after \<open>applyPenalty\<close> is not negative,
  whichever render the handler belongs to.
\<close>

theorem penaltyToday_bounds:
  assumes "0 \<le> stakeBalance s" and "0 \<le> stakePerMiss s"
  shows "penaltyToday tk s = min (stakeBalance s) (of_nat (missedTasks tk s) * stakePerMiss s)
         \<and> 0 \<le> penaltyToday tk s \<and> penaltyToday tk s \<le> stakeBalance s
         \<and> 0 \<le> stakeBalance (applyPenalty N tz now tk s s)
         \<and> 0 \<le> stakeBalance (applyPenalty N tz now tk rendered s)"
  using assms by (simp add: penaltyToday_def rawPenalty_def applyPenalty_def)

text \<open>A balance of 10, a rate of 15 and one missed task: the penalty is 10, not 15.\<close>

theorem penaltyToday_bounds_witness:
  "0 \<le> stakeBalance exampleHome \<and> 0 \<le> stakePerMiss exampleHome
   \<and> missedTasks exampleToday exampleHome = 1
   \<and> penaltyToday exampleToday exampleHome = min 10 (1 * 15)
   \<and> 0 \<le> stakeBalance (applyPenalty decimalNumber 0 at2101 exampleToday exampleHome exampleHome)"
proof -
  have b: "0 \<le> stakeBalance exampleHome" and r: "0 \<le> stakePerMiss exampleHome"
    by (simp_all add: exampleHome_def)
  have m: "missedTasks exampleToday exampleHome = 1"
    by (simp add: missedTasks_def exampleHome_def)
  have v: "stakeBalance exampleHome = 10" "stakePerMiss exampleHome = 15"
    by (simp_all add: exampleHome_def)
  show ?thesis
    using penaltyToday_bounds [OF b r, of exampleToday decimalNumber 0 at2101 exampleHome]
      b r m v
    by simp
qed

text \<open>
  C10, as the specification states it, fails: the amounts are doubles, and a sum is
  rounded. In the state with a balance of 19.99, penalties of 0.1, a rate of 15 and one
  missed task, \<open>canApplyPenalty\<close> holds and \<open>penaltyToday\<close> is 15, but \<open>totalPenalties\<close> does
  not rise by exactly 15: 0.1 + 15 is not a double. The sum of balance and penalties is not
  preserved, neither as a number nor as the program would compute it (20.09 before,
  20.089999999999996 after).
\<close>

theorem applyPenalty_rounds_total:
  "canApplyPenalty decimalNumber 0 at2101 exampleToday roundingHome
   \<and> penaltyToday exampleToday roundingHome = 15
   \<and> totalPenalties (applyPenalty decimalNumber 0 at2101 exampleToday roundingHome roundingHome)
       \<noteq> totalPenalties roundingHome + penaltyToday exampleToday roundingHome
   \<and> stakeBalance (applyPenalty decimalNumber 0 at2101 exampleToday roundingHome roundingHome)
       + totalPenalties (applyPenalty decimalNumber 0 at2101 exampleToday roundingHome roundingHome)
       \<noteq> stakeBalance roundingHome + totalPenalties roundingHome
   \<and> roundDouble
        (stakeBalance (applyPenalty decimalNumber 0 at2101 exampleToday roundingHome roundingHome)
         + totalPenalties
             (applyPenalty decimalNumber 0 at2101 exampleToday roundingHome roundingHome))
       \<noteq> roundDouble (stakeBalance roundingHome + totalPenalties roundingHome)"
  by code_simp

text \<open>
  C10, amended. When \<open>canApplyPenalty\<close> holds and \<open>penaltyToday\<close> is positive, \<open>applyPenalty\<close>
  sets \<open>stakeBalance\<close> to the double nearest to \<open>stakeBalance - penaltyToday\<close>, which is not
  negative, and \<open>totalPenalties\<close> to the double nearest to \<open>totalPenalties + penaltyToday\<close>.
  When this difference and this sum are doubles themselves, as they are for whole amounts
  below \<open>2 ^ 53\<close>, the balance falls and the penalties rise by exactly \<open>penaltyToday\<close>, and
  their sum is preserved. It sets \<open>lastPenaltyDate\<close> to \<open>todayKey\<close>, and it leaves \<open>actions\<close>,
  \<open>plannerGoal\<close>, \<open>plannerProblem\<close>, \<open>proofLog\<close>, \<open>strictMode\<close>, \<open>deadlineTime\<close> and
  \<open>stakePerMiss\<close> as they were.
\<close>

theorem applyPenalty_frame:
  assumes "canApplyPenalty N tz now tk s" and "penaltyToday tk s > 0"
  shows "stakeBalance (applyPenalty N tz now tk s s)
           = roundDouble (stakeBalance s - penaltyToday tk s)
         \<and> 0 \<le> stakeBalance (applyPenalty N tz now tk s s)
         \<and> totalPenalties (applyPenalty N tz now tk s s)
           = roundDouble (totalPenalties s + penaltyToday tk s)
         \<and> (roundDouble (stakeBalance s - penaltyToday tk s) = stakeBalance s - penaltyToday tk s
             \<and> roundDouble (totalPenalties s + penaltyToday tk s)
                 = totalPenalties s + penaltyToday tk s
             \<longrightarrow> stakeBalance (applyPenalty N tz now tk s s) = stakeBalance s - penaltyToday tk s
                 \<and> totalPenalties (applyPenalty N tz now tk s s)
                     = totalPenalties s + penaltyToday tk s
                 \<and> stakeBalance (applyPenalty N tz now tk s s)
                     + totalPenalties (applyPenalty N tz now tk s s)
                     = stakeBalance s + totalPenalties s)
         \<and> lastPenaltyDate (applyPenalty N tz now tk s s) = tk
         \<and> actions (applyPenalty N tz now tk s s) = actions s
         \<and> plannerGoal (applyPenalty N tz now tk s s) = plannerGoal s
         \<and> plannerProblem (applyPenalty N tz now tk s s) = plannerProblem s
         \<and> proofLog (applyPenalty N tz now tk s s) = proofLog s
         \<and> strictMode (applyPenalty N tz now tk s s) = strictMode s
         \<and> deadlineTime (applyPenalty N tz now tk s s) = deadlineTime s
         \<and> stakePerMiss (applyPenalty N tz now tk s s) = stakePerMiss s"
proof -
  have "0 \<le> stakeBalance s - penaltyToday tk s"
    using penaltyToday_le [of tk s] by simp
  then have nn: "0 \<le> roundDouble (stakeBalance s - penaltyToday tk s)"
    by (rule roundDouble_nonneg)
  show ?thesis
    using assms nn by (simp add: applyPenalty_def max_def)
qed

text \<open>
  The example state: 10 - 10 and 0 + 10 are doubles, the balance goes from 10 to 0 and the
  penalties from 0 to 10.
\<close>

theorem applyPenalty_frame_witness:
  "canApplyPenalty decimalNumber 0 at2101 exampleToday exampleHome
   \<and> penaltyToday exampleToday exampleHome > 0
   \<and> roundDouble (stakeBalance exampleHome - penaltyToday exampleToday exampleHome)
       = stakeBalance exampleHome - penaltyToday exampleToday exampleHome
   \<and> roundDouble (totalPenalties exampleHome + penaltyToday exampleToday exampleHome)
       = totalPenalties exampleHome + penaltyToday exampleToday exampleHome
   \<and> stakeBalance (applyPenalty decimalNumber 0 at2101 exampleToday exampleHome exampleHome) = 0
   \<and> totalPenalties (applyPenalty decimalNumber 0 at2101 exampleToday exampleHome exampleHome)
       = 10
   \<and> lastPenaltyDate (applyPenalty decimalNumber 0 at2101 exampleToday exampleHome exampleHome)
       = exampleToday
   \<and> stakePerMiss (applyPenalty decimalNumber 0 at2101 exampleToday exampleHome exampleHome)
       = 15"
proof -
  have p: "penaltyToday exampleToday exampleHome > 0"
    by (simp add: exampleHome_penalty)
  have v: "stakeBalance exampleHome = 10" "totalPenalties exampleHome = 0"
    "stakePerMiss exampleHome = 15"
    by (simp_all add: exampleHome_def)
  have r: "roundDouble 0 = 0" "roundDouble 10 = 10"
    by code_simp+
  show ?thesis
    using applyPenalty_frame [OF exampleHome_can p] exampleHome_can exampleHome_penalty v r
    by simp
qed

text \<open>
  C9, as the specification states it, fails. The deadline \<open>21:\<close> has an empty minute
  component and is no time of the form HH:MM, yet it is past at 21:01: \<open>Number\<close> converts
  the empty string to 0, and the deadline is read as 21:00. In the same way the deadline
  \<open>:\<close>, with both components empty, is read as 00:00 and is past at 20:59.
\<close>

theorem isPastDeadline_empty_component_is_past:
  "hourPart ''21:'' = ''21'' \<and> minutePart ''21:'' = Some []
   \<and> isPastDeadline decimalNumber 0 at2101 ''21:''
   \<and> hourPart '':'' = [] \<and> minutePart '':'' = Some []
   \<and> isPastDeadline decimalNumber 0 at2059 '':''"
  by code_simp

text \<open>
  C9, amended. A deadline string with a missing minute component (no colon), or with an
  hour or minute component that \<open>Number\<close> does not convert to a finite number, is never
  past: the check fails open. A component that \<open>Number\<close> converts counts as numeric,
  the empty one included. For a deadline whose components convert to an hour \<open>h\<close> from 0
  to 23 and a minute \<open>m\<close> from 0 to 59, at an instant more than a day inside the range of
  \<open>Date\<close>, the deadline is past exactly when the local time of day is strictly after
  \<open>h:m\<close>.
\<close>

theorem isPastDeadline_fail_open:
  "((minutePart dl = None \<or> N (hourPart dl) = None
       \<or> (\<exists>ms. minutePart dl = Some ms \<and> N ms = None))
      \<longrightarrow> \<not> isPastDeadline N tz now dl)
   \<and> (N (hourPart dl) = Some (of_int h) \<and> minutePart dl = Some ms \<and> N ms = Some (of_int m)
        \<and> 0 \<le> h \<and> h < 24 \<and> 0 \<le> m \<and> m < 60
        \<and> validTime (now - msPerDay) \<and> validTime (now + msPerDay)
      \<longrightarrow> isPastDeadline N tz now dl
          = (h * msPerHour + m * msPerMinute < (now + tz * msPerMinute) mod msPerDay))"
proof (intro conjI impI)
  assume "minutePart dl = None \<or> N (hourPart dl) = None
          \<or> (\<exists>ms. minutePart dl = Some ms \<and> N ms = None)"
  then show "\<not> isPastDeadline N tz now dl"
    by (auto simp: isPastDeadline_def splitOn_parts split: option.splits)
next
  assume a: "N (hourPart dl) = Some (of_int h) \<and> minutePart dl = Some ms
        \<and> N ms = Some (of_int m)
        \<and> 0 \<le> h \<and> h < 24 \<and> 0 \<le> m \<and> m < 60
        \<and> validTime (now - msPerDay) \<and> validTime (now + msPerDay)"
  then have sh: "setHours tz now (of_int h) (of_int m)
         = Some ((now + tz * msPerMinute) div msPerDay * msPerDay + h * msPerHour
                 + m * msPerMinute - tz * msPerMinute)"
    by (intro setHours_near) simp_all
  have "now + tz * msPerMinute = (now + tz * msPerMinute) div msPerDay * msPerDay
          + (now + tz * msPerMinute) mod msPerDay"
    by simp
  then have "((now + tz * msPerMinute) div msPerDay * msPerDay + h * msPerHour
                 + m * msPerMinute - tz * msPerMinute < now)
             = (h * msPerHour + m * msPerMinute < (now + tz * msPerMinute) mod msPerDay)"
    by linarith
  then show "isPastDeadline N tz now dl
          = (h * msPerHour + m * msPerMinute < (now + tz * msPerMinute) mod msPerDay)"
    using a sh by (simp add: isPastDeadline_def splitOn_parts)
qed

text \<open>
  The deadline \<open>soon\<close> has no minute component and is not past at 21:01; the deadline
  \<open>21:00\<close> is not past at 20:59 and is past at 21:01.
\<close>

theorem isPastDeadline_fail_open_witness:
  "minutePart ''soon'' = None \<and> \<not> isPastDeadline decimalNumber 0 at2101 ''soon''
   \<and> decimalNumber (hourPart ''21:00'') = Some (of_int 21)
   \<and> minutePart ''21:00'' = Some ''00'' \<and> decimalNumber ''00'' = Some (of_int 0)
   \<and> validTime (at2059 - msPerDay) \<and> validTime (at2101 + msPerDay)
   \<and> \<not> isPastDeadline decimalNumber 0 at2059 ''21:00''
   \<and> isPastDeadline decimalNumber 0 at2101 ''21:00''"
proof -
  have s: "minutePart ''soon'' = None"
    by (simp add: minutePart_def)
  have hp: "decimalNumber (hourPart ''21:00'') = Some (of_int 21)"
    by (simp add: hourPart_def decimalNumber_def digitVal_def)
  have mp: "minutePart ''21:00'' = Some ''00''"
    by (simp add: minutePart_def)
  have mn: "decimalNumber ''00'' = Some (of_int 0)"
    by (simp add: decimalNumber_def digitVal_def)
  have v: "validTime (at2059 - msPerDay)" "validTime (at2059 + msPerDay)"
    "validTime (at2101 - msPerDay)" "validTime (at2101 + msPerDay)"
    by (simp_all add: validTime_def at2059_def at2101_def msPerDay_def)
  have t1: "(at2059 + 0 * msPerMinute) mod msPerDay = 20 * msPerHour + 59 * msPerMinute"
    by (simp add: at2059_def msPerDay_def msPerHour_def msPerMinute_def)
  have t2: "(at2101 + 0 * msPerMinute) mod msPerDay = 21 * msPerHour + 1 * msPerMinute"
    by (simp add: at2101_def msPerDay_def msPerHour_def msPerMinute_def)
  have a: "\<not> isPastDeadline decimalNumber 0 at2101 ''soon''"
    using isPastDeadline_fail_open [where dl = "''soon''" and N = decimalNumber and tz = 0
        and now = at2101] s
    by blast
  have b: "isPastDeadline decimalNumber 0 at2059 ''21:00''
           = (21 * msPerHour + 0 * msPerMinute < (at2059 + 0 * msPerMinute) mod msPerDay)"
    using isPastDeadline_fail_open [where dl = "''21:00''" and N = decimalNumber and tz = 0
        and now = at2059 and h = 21 and m = 0 and ms = "''00''"] hp mp mn v
    by simp
  have c: "isPastDeadline decimalNumber 0 at2101 ''21:00''
           = (21 * msPerHour + 0 * msPerMinute < (at2101 + 0 * msPerMinute) mod msPerDay)"
    using isPastDeadline_fail_open [where dl = "''21:00''" and N = decimalNumber and tz = 0
        and now = at2101 and h = 21 and m = 0 and ms = "''00''"] hp mp mn v
    by simp
  have b': "\<not> isPastDeadline decimalNumber 0 at2059 ''21:00''"
    unfolding b t1 by (simp add: msPerHour_def msPerMinute_def)
  have c': "isPastDeadline decimalNumber 0 at2101 ''21:00''"
    unfolding c t2 by (simp add: msPerHour_def msPerMinute_def)
  from s a hp mp mn v b' c' show ?thesis by blast
qed
subsection \<open>Resistance classifier and suggestion engine\<close>

text \<open>
  C6. For every goal and blocker, \<open>detectResistance\<close> is a keyword match over the two
  strings joined by a space and put in lower case: it tests the categories in the order
  ambiguity, overwhelm, anxiety, inertia, perfectionism, returns the first one a phrase of
  which occurs in the text, and returns \<open>Default\<close> when none does. It is insensitive to
  case: inputs that agree up to case get the same answer. Being a function of the two
  strings, it is deterministic and pure.
\<close>

theorem detectResistance_priority:
  "detectResistance goal blocker = classify_spec (toLowerCase (goal @ '' '' @ blocker))
   \<and> (\<forall>goal' blocker'.
         toLowerCase goal' = toLowerCase goal \<and> toLowerCase blocker' = toLowerCase blocker
         \<longrightarrow> detectResistance goal' blocker' = detectResistance goal blocker)"
proof (intro conjI allI impI)
  show "detectResistance goal blocker = classify_spec (toLowerCase (goal @ '' '' @ blocker))"
    by (simp add: detectResistance_def classify_spec_def classify_priority_def Let_def
        test_alt_sublist)
next
  fix goal' blocker'
  assume "toLowerCase goal' = toLowerCase goal \<and> toLowerCase blocker' = toLowerCase blocker"
  then have "toLowerCase (goal' @ '' '' @ blocker') = toLowerCase (goal @ '' '' @ blocker)"
    by (simp only: toLowerCase_append)
  then show "detectResistance goal' blocker' = detectResistance goal blocker"
    by (simp only: detectResistance_def)
qed

text \<open>
  A text with an inertia phrase and an anxiety phrase is anxiety, the earlier category, in
  any capitalisation.
\<close>

theorem detectResistance_priority_witness:
  "toLowerCase ''I Keep PUTTING off'' = toLowerCase ''i keep putting off''
   \<and> toLowerCase ''It Matters A LOT'' = toLowerCase ''it matters a lot''
   \<and> detectResistance ''i keep putting off'' ''it matters a lot'' = Anxiety
   \<and> detectResistance ''I Keep PUTTING off'' ''It Matters A LOT'' = Anxiety"
proof -
  have g: "toLowerCase ''I Keep PUTTING off'' = toLowerCase ''i keep putting off''"
    by (simp add: toLowerCase_def toLowerChar_def)
  have b: "toLowerCase ''It Matters A LOT'' = toLowerCase ''it matters a lot''"
    by (simp add: toLowerCase_def toLowerChar_def)
  have r: "detectResistance ''i keep putting off'' ''it matters a lot'' = Anxiety"
    by code_simp
  show ?thesis
    using detectResistance_priority [of "''i keep putting off''" "''it matters a lot''"] g b r
    by simp
qed

text \<open>
  C5, as the specification states it, fails. For the goal "finish methods section draft" and
  the blocker "i overthink and delay starting" the classifier does not return inertia, and
  the task of adding exactly one sentence, which is the 10-minute task of the inertia
  category, is not among the suggestions.
\<close>

theorem methods_draft_not_inertia:
  "detectResistance ''finish methods section draft'' ''i overthink and delay starting''
     \<noteq> Inertia
   \<and> ''Set a 10-minute timer, open your project, and add exactly one sentence to move it forward.''
       \<notin> set (buildSuggestedTasks ''finish methods section draft''
                  ''i overthink and delay starting'')"
  by code_simp

text \<open>
  C5, amended. For these inputs no phrase of any category occurs in the text, the
  classifier returns \<open>Default\<close>, and the suggestion engine returns six tasks: it opens with
  the desk-clearing task boxed at 4 minutes, and its 10-minute task is to finish one
  paragraph.
\<close>

theorem methods_draft_suggestions:
  "detectResistance ''finish methods section draft'' ''i overthink and delay starting''
     = Default
   \<and> buildSuggestedTasks ''finish methods section draft'' ''i overthink and delay starting''
     = [''Clear your desk and throw away anything that does not belong there for 4 minutes.'',
        ''Open the file you need and set up only the tools you need in 3 minutes.'',
        ''Outline the next 3 steps for your project in bullet points for 8 minutes only.'',
        ''Stand up, get water, and come back to your desk in 3 minutes.'',
        ''Set a 10-minute timer and finish one paragraph for your project, nothing more.'',
        ''Save your document, close the file, and write one line for your next action in 2 minutes.'']"
  by code_simp

subsection \<open>Task normalizer\<close>

text \<open>
  C7. For every sequence of candidate entries, \<open>normalizeActions\<close> returns the well-typed
  entries in their order, without each entry whose key is empty or is the key of an earlier
  entry; the result is a subsequence of the well-typed entries, its keys are pairwise
  distinct, and none of them is empty.
\<close>

theorem normalizeActions_first_seen:
  "normalizeActions (JArr vs) = firstSeen (wellTyped vs)
   \<and> subseq (normalizeActions (JArr vs)) (wellTyped vs)
   \<and> distinct (map textKey (normalizeActions (JArr vs)))
   \<and> [] \<notin> set (map textKey (normalizeActions (JArr vs)))"
proof -
  have eq: "normalizeActions (JArr vs) = keepUnseen {} (map Some (wellTyped vs))"
    by (simp add: normalizeActions_def keepUnseen_map_toItem)
  have 1: "normalizeActions (JArr vs) = firstSeen (wellTyped vs)"
    by (simp add: eq keepUnseen_firstSeenFrom firstSeenFrom_empty)
  have 2: "subseq (normalizeActions (JArr vs)) (wellTyped vs)"
    unfolding eq by (rule keepUnseen_subseq)
  have 3: "distinct (map textKey (normalizeActions (JArr vs)))"
    unfolding eq by (rule keepUnseen_distinct)
  have 4: "[] \<notin> set (map textKey (normalizeActions (JArr vs)))"
    unfolding eq keepUnseen_keys by simp
  from 1 2 3 4 show ?thesis by blast
qed

text \<open>
  Of the six sample candidates, the first and the last stay: the others are a string, a
  respelling of the first, an entry with a number for an id, and an entry with an empty key.
\<close>

theorem normalizeActions_first_seen_witness:
  "normalizeActions (JArr sampleCandidates)
     = [\<lparr>item_id = ''1'', item_text = ''Read paper'', completedDates = []\<rparr>,
        \<lparr>item_id = ''5'', item_text = ''Write'', completedDates = [''2024-03-10'']\<rparr>]
   \<and> map textKey (firstSeen (wellTyped sampleCandidates)) = [''read paper'', ''write'']"
proof -
  have "normalizeActions (JArr sampleCandidates)
     = [\<lparr>item_id = ''1'', item_text = ''Read paper'', completedDates = []\<rparr>,
        \<lparr>item_id = ''5'', item_text = ''Write'', completedDates = [''2024-03-10'']\<rparr>]"
    by code_simp
  moreover have "map textKey
     [\<lparr>item_id = ''1'', item_text = ''Read paper'', completedDates = []\<rparr>,
      \<lparr>item_id = ''5'', item_text = ''Write'', completedDates = [''2024-03-10'']\<rparr>]
     = [''read paper'', ''write'']"
    by code_simp
  ultimately show ?thesis
    using normalizeActions_first_seen [of sampleCandidates] by simp
qed

text \<open>
  C8. The normalizer is idempotent: normalizing the list it returned, handed back as a
  value, returns the same list.
\<close>

theorem normalizeActions_idempotent:
  "normalizeActions (actionsToJs (normalizeActions v)) = normalizeActions v"
proof (cases v)
  case (JArr vs)
  let ?out = "keepUnseen {} (map Some (wellTyped vs))"
  have eq: "normalizeActions v = ?out"
    by (simp add: JArr normalizeActions_def keepUnseen_map_toItem)
  have "keepUnseen {} (map Some ?out) = ?out"
  proof (rule keepUnseen_fixed)
    show "distinct (map textKey ?out)" by (rule keepUnseen_distinct)
    show "[] \<notin> set (map textKey ?out)" unfolding keepUnseen_keys by simp
    show "{} \<inter> set (map textKey ?out) = {}" by simp
  qed
  moreover have "normalizeActions (actionsToJs ?out) = keepUnseen {} (map Some ?out)"
    by (simp only: actionsToJs_def normalizeActions_def jsval.case keepUnseen_map_toItem
        wellTyped_itemToJs)
  ultimately show ?thesis
    by (simp only: eq)
qed (simp_all add: normalizeActions_def actionsToJs_def)

subsection \<open>State codec\<close>

text \<open>
  C3, at the input where the code departs from it. The stored blob is
  \<open>{"deadlineTime":5}\<close>: it parses, and its field \<open>deadlineTime\<close> has the wrong type.
  \<open>loadSavedState\<close> does not put the default \<open>21:00\<close> in its place: the state it returns has
  the number 5 for \<open>deadlineTime\<close>, so it is not a well-typed \<open>SavedState\<close>, and the blob
  stays in the store.
\<close>

theorem loadSavedState_keeps_wrong_type:
  "deadlineTime (fst (loadSavedState parseSample True [APP_STORAGE_KEY \<mapsto> wrongTypeBlob]))
     = JNum 5
   \<and> \<not> wellTypedState
         (fst (loadSavedState parseSample True [APP_STORAGE_KEY \<mapsto> wrongTypeBlob]))
   \<and> snd (loadSavedState parseSample True [APP_STORAGE_KEY \<mapsto> wrongTypeBlob])
         APP_STORAGE_KEY
       = Some wrongTypeBlob"
  by (simp add: loadSavedState_def parseSample_def wrongTypeBlob_def buildState_def getProp_def
      ownProp_def spreadField_def wellTypedState_def isStr_def)

subsection \<open>Streak calculator\<close>

text \<open>
  C4, at the input where the code departs from it. The host is one hour east of UTC, the
  only task was completed on 2024-03-10 and on no other day, and \<open>todayKey\<close> is 2024-03-10:
  the completion dates contain day \<open>d\<close> and not day \<open>d - 1\<close>, so the streak of the claim is
  1. \<open>getCurrentStreak\<close> returns 0: local midnight of 2024-03-10 is 23:00 of 2024-03-09 in
  UTC, and the walk starts at the date 2024-03-09.
\<close>

theorem getCurrentStreak_east_of_utc_misses_today:
  "dayOfIsoDate exampleToday = Some 19792
   \<and> isoDateOfDay 19792 \<in> set (concat (map completedDates [doneOn [exampleToday]]))
   \<and> isoDateOfDay (19792 - 1) \<notin> set (concat (map completedDates [doneOn [exampleToday]]))
   \<and> isoDateOfDay (utcDay (localMidnight 60 19792)) = ''2024-03-09''
   \<and> getCurrentStreak dayOfIsoDate isoDateOfDay 60 [doneOn [exampleToday]] exampleToday
       = Some (Inr 0)"
  by code_simp

end
